theory Spec2Isabelle
  imports Main
begin

section \<open>HillPulse relay: a shallow embedding of \<open>src/server.js\<close>\<close>

text \<open>
  The source file holds two variants of the server. The baseline variant (lines 1-156)
  has the deduplicator and the email notifier; the hardened variant (lines 157-279) has
  the shared-secret check and the retry loop around the summarizer call.

  JavaScript strings are modelled as \<^typ>\<open>string\<close>, one \<^typ>\<open>char\<close> per code unit, which
  covers the code units below 256. A value that may be \<open>undefined\<close> is a
  \<^typ>\<open>string option\<close>. Time stamps (\<open>Date.now()\<close>, milliseconds since the epoch) are
  \<^typ>\<open>int\<close>. A thrown \<open>Error\<close> is the left summand of a sum, carrying its \<open>message\<close>.
\<close>

subsection \<open>Truthiness\<close>

text \<open>\<open>x || d\<close> on an optional string: \<open>undefined\<close> and \<open>''\<close> are falsy.\<close>

definition truthy :: "string option \<Rightarrow> bool" where
  "truthy x = (case x of None \<Rightarrow> False | Some s \<Rightarrow> s \<noteq> [])"

definition or_str :: "string option \<Rightarrow> string \<Rightarrow> string" where
  "or_str x d = (case x of None \<Rightarrow> d | Some s \<Rightarrow> if s = [] then d else s)"

subsection \<open>Deduplicator (lines 12-25)\<close>

type_synonym seen = "string \<rightharpoonup> int"

definition TTL_MS :: int where
  "TTL_MS = 24 * 60 * 60 * 1000"

text \<open>
  \<open>markSeen\<close> stores the clock reading under the id, then deletes every entry with
  \<open>Date.now() - t > TTL_MS\<close>. The body runs without suspension, so its clock readings
  are one value \<open>now\<close>.
\<close>

definition markSeen :: "seen \<Rightarrow> string \<Rightarrow> int \<Rightarrow> seen" where
  "markSeen S i now =
     (\<lambda>k. case (S(i \<mapsto> now)) k of
            None \<Rightarrow> None
          | Some t \<Rightarrow> if now - t > TTL_MS then None else Some t)"

text \<open>
  \<open>isSeen\<close> returns \<open>t && (Date.now() - t) < TTL_MS\<close>, used as a condition: a missing
  entry (\<open>undefined\<close>) and a stored \<open>0\<close> are both falsy.
\<close>

definition isSeen :: "seen \<Rightarrow> string \<Rightarrow> int \<Rightarrow> bool" where
  "isSeen S i now =
     (case S i of
        None \<Rightarrow> False
      | Some t \<Rightarrow> t \<noteq> 0 \<and> now - t < TTL_MS)"

text \<open>A run of later \<open>markSeen\<close> calls, each with its id and clock reading.\<close>

fun markAll :: "seen \<Rightarrow> (string \<times> int) list \<Rightarrow> seen" where
  "markAll S [] = S"
| "markAll S ((j, t) # ms) = markAll (markSeen S j t) ms"

subsection \<open>Outbound HTTP calls\<close>

text \<open>
  What the code reads from the response of one \<open>fetch\<close>: \<open>res.status\<close>, \<open>res.text()\<close>
  (\<open>None\<close> when it rejects), and \<open>res.json()\<close> followed by the read of the one field
  the caller uses (\<open>data.html\<close> for the embed endpoint, \<open>data2.text\<close> for syndication,
  \<open>data?.candidates?.[0]?.content?.parts?.[0]?.text\<close> for the summarizer): \<open>Inl m\<close>
  when that throws with message \<open>m\<close>, \<open>Inr None\<close> when the field is \<open>undefined\<close>.
\<close>

record response =
  status :: nat
  text_body :: "string option"
  json_field :: "string + string option"

text \<open>A \<open>fetch\<close> either rejects (throws at the \<open>await\<close>) or resolves to a response.\<close>

datatype fetch_result = Rejects string | Resp response

text \<open>\<open>res.ok\<close>: the status is in the range 200-299.\<close>

definition ok :: "response \<Rightarrow> bool" where
  "ok r = (200 \<le> status r \<and> status r \<le> 299)"

text \<open>Configuration read from \<open>process.env\<close>.\<close>

record config =
  GEMINI_KEY :: "string option"
  INGEST_SECRET :: string
  PUSHOVER_API_TOKEN :: "string option"
  PUSHOVER_USER_KEY :: "string option"
  SMTP_HOST :: "string option"
  SMTP_USER :: "string option"
  SMTP_PASS :: "string option"
  EMAIL_TO :: "string option"

text \<open>
  The outside world as one request meets it: the clock, the answer of each endpoint
  (the summarizer's by the number of the call within the request), and whether
  \<open>transporter.sendMail\<close> throws (\<open>Some m\<close>) or resolves (\<open>None\<close>).
\<close>

record world =
  clock :: int
  oembed :: "string \<Rightarrow> fetch_result"
  syndication :: "string \<Rightarrow> fetch_result"
  gemini :: "nat \<Rightarrow> fetch_result"
  pushover :: fetch_result
  sendMail :: "string option"

text \<open>The outbound effects of a request, in the order they happen.\<close>

datatype event =
    FetchOEmbed string
  | FetchSyndication string
  | FetchGemini string string string
  | Sleep nat
  | PostPushover string string "string option"
  | SendMail string string

subsection \<open>Strings\<close>

text \<open>The decimal rendering of a number inside a string concatenation.\<close>

definition digit :: "nat \<Rightarrow> char" where
  "digit d = ''0123456789'' ! d"

fun show_nat :: "nat \<Rightarrow> string" where
  "show_nat n =
     (if n < 10 then [digit n]
      else show_nat (n div 10) @ [digit (n mod 10)])"

text \<open>\<open>String.prototype.trim\<close>: white space and line terminators below code unit 256.\<close>

definition is_space :: "char \<Rightarrow> bool" where
  "is_space c = (of_char c \<in> {9, 10, 11, 12, 13, 32, 160 :: nat})"

definition trim :: "string \<Rightarrow> string" where
  "trim s = rev (dropWhile is_space (rev (dropWhile is_space s)))"

subsection \<open>Text Resolver (lines 27-59, and 217-240 with the same body)\<close>

text \<open>
  \<open>.replace(/<[^>]+>/g, '')\<close>: scanning from the left, a \<open><\<close> followed by one or
  more characters other than \<open>>\<close> and then a \<open>>\<close> is a match and is dropped; the scan
  goes on behind it. The class is greedy and can only end at the first \<open>>\<close>, so a
  \<open><\<close> with \<open>>\<close> right behind it, or with no \<open>>\<close> behind it, starts no match.
\<close>

function strip_tags :: "string \<Rightarrow> string" where
  "strip_tags [] = []"
| "strip_tags (c # r) =
     (if c = CHR ''<'' \<and> takeWhile (\<lambda>x. x \<noteq> CHR ''>'') r \<noteq> []
           \<and> dropWhile (\<lambda>x. x \<noteq> CHR ''>'') r \<noteq> []
      then strip_tags (tl (dropWhile (\<lambda>x. x \<noteq> CHR ''>'') r))
      else c # strip_tags r)"
  by pat_completeness auto
termination
proof (relation "measure length")
  fix c :: char and r :: string
  assume "c = CHR ''<'' \<and> takeWhile (\<lambda>x. x \<noteq> CHR ''>'') r \<noteq> []
           \<and> dropWhile (\<lambda>x. x \<noteq> CHR ''>'') r \<noteq> []"
  have "length (tl (dropWhile (\<lambda>x. x \<noteq> CHR ''>'') r)) \<le> length r"
    using length_dropWhile_le [of "\<lambda>x. x \<noteq> CHR ''>''" r] by simp
  then show "(tl (dropWhile (\<lambda>x. x \<noteq> CHR ''>'') r), c # r) \<in> measure length"
    by simp
qed simp_all

text \<open>
  \<open>.replace(/pat/g, rep)\<close> for a literal, non-empty pattern: every match found by the
  left-to-right scan is replaced, and the scan goes on behind the match in the source
  string (the replacement text is not scanned again by the same call).
\<close>

function replace_all :: "string \<Rightarrow> string \<Rightarrow> string \<Rightarrow> string" where
  "replace_all pat rep s =
     (if s = [] \<or> pat = [] then s
      else if take (length pat) s = pat
           then rep @ replace_all pat rep (drop (length pat) s)
           else hd s # replace_all pat rep (tl s))"
  by pat_completeness auto
termination
  by (relation "measure (\<lambda>(pat, rep, s). length s)") auto

text \<open>The chain of six \<open>replace\<close> calls on \<open>match[1]\<close> (lines 38-44, line 227).\<close>

definition decode_fragment :: "string \<Rightarrow> string" where
  "decode_fragment m =
     replace_all ''&#39;'' [CHR 0x27]
       (replace_all ''&quot;'' [CHR 0x22]
         (replace_all ''&gt;'' ''>''
           (replace_all ''&lt;'' ''<''
             (replace_all ''&amp;'' ''&''
               (strip_tags m)))))"

text \<open>
  \<open>html.match(/<p[^>]*>(.*?)<\/p>/)\<close>. The dot does not match a line terminator
  (LF and CR among the code units below 256). \<open>find_close\<close> is the lazy group followed
  by \<open></p>\<close>; \<open>match_at\<close> tries the whole expression at the start of the string;
  \<open>match_p\<close> takes the leftmost start that matches and returns the group.
\<close>

definition is_line_terminator :: "char \<Rightarrow> bool" where
  "is_line_terminator c = (c = CHR 0x0A \<or> c = CHR 0x0D)"

fun find_close :: "string \<Rightarrow> string option" where
  "find_close [] = None"
| "find_close (c # r) =
     (if take 4 (c # r) = ''</p>'' then Some []
      else if is_line_terminator c then None
      else map_option (\<lambda>g. c # g) (find_close r))"

definition match_at :: "string \<Rightarrow> string option" where
  "match_at s =
     (if take 2 s = ''<p''
      then (case dropWhile (\<lambda>x. x \<noteq> CHR ''>'') (drop 2 s) of
              [] \<Rightarrow> None
            | _ # inner \<Rightarrow> find_close inner)
      else None)"

fun match_p :: "string \<Rightarrow> string option" where
  "match_p [] = None"
| "match_p (c # r) =
     (case match_at (c # r) of
        Some g \<Rightarrow> Some g
      | None \<Rightarrow> match_p r)"

text \<open>
  The two network stages inside the one \<open>try\<close> block. \<open>Inl m\<close>: an exception with
  message \<open>m\<close> was thrown; \<open>Inr (Some t)\<close>: the stage returns \<open>t\<close>; \<open>Inr None\<close>: control
  falls through to the next statement.
\<close>

definition oembed_stage :: "fetch_result \<Rightarrow> string + string option" where
  "oembed_stage f =
     (case f of
        Rejects m \<Rightarrow> Inl m
      | Resp r1 \<Rightarrow>
          if ok r1 then
            (case json_field r1 of
               Inl m \<Rightarrow> Inl m
             | Inr h \<Rightarrow>
                 (case match_p (or_str h []) of
                    Some g \<Rightarrow> Inr (Some (decode_fragment g))
                  | None \<Rightarrow> Inr None))
          else Inr None)"

definition syndication_stage :: "fetch_result \<Rightarrow> string + string option" where
  "syndication_stage f =
     (case f of
        Rejects m \<Rightarrow> Inl m
      | Resp r2 \<Rightarrow>
          if ok r2 then
            (case json_field r2 of
               Inl m \<Rightarrow> Inl m
             | Inr t \<Rightarrow> if truthy t then Inr t else Inr None)
          else Inr None)"

text \<open>
  \<open>fetchTweetText\<close> returns the text and the calls it made. An exception in either
  stage reaches the \<open>catch\<close>, which logs it, and the function returns \<open>''\<close>.
\<close>

definition fetchTweetText :: "world \<Rightarrow> string \<Rightarrow> string \<times> event list" where
  "fetchTweetText w u =
     (if u = [] then ([], [])
      else
        (case oembed_stage (oembed w u) of
           Inl m \<Rightarrow> ([], [FetchOEmbed u])
         | Inr (Some t) \<Rightarrow> (t, [FetchOEmbed u])
         | Inr None \<Rightarrow>
             (case syndication_stage (syndication w u) of
                Inl m \<Rightarrow> ([], [FetchOEmbed u, FetchSyndication u])
              | Inr (Some t) \<Rightarrow> (t, [FetchOEmbed u, FetchSyndication u])
              | Inr None \<Rightarrow> ([], [FetchOEmbed u, FetchSyndication u]))))"

subsection \<open>Summarizer, baseline variant (lines 61-88)\<close>

text \<open>The body of a non-OK response as the error message quotes it: \<open>''\<close> if unreadable.\<close>

definition text_or_empty :: "response \<Rightarrow> string" where
  "text_or_empty r = (case text_body r of None \<Rightarrow> [] | Some t \<Rightarrow> t)"

definition gemini_once :: "fetch_result \<Rightarrow> string + string" where
  "gemini_once f =
     (case f of
        Rejects m \<Rightarrow> Inl m
      | Resp r \<Rightarrow>
          if \<not> ok r
          then Inl (''Gemini error '' @ show_nat (status r) @ '': '' @ text_or_empty r)
          else (case json_field r of
                  Inl m \<Rightarrow> Inl m
                | Inr t \<Rightarrow> Inr (trim (or_str t []))))"

definition callGeminiSummary ::
  "config \<Rightarrow> world \<Rightarrow> string \<Rightarrow> string \<Rightarrow> string \<Rightarrow> (string + string) \<times> event list" where
  "callGeminiSummary cfg w txt author u =
     (if \<not> truthy (GEMINI_KEY cfg) then (Inl ''Missing GEMINI_API_KEY'', [])
      else (gemini_once (gemini w 0), [FetchGemini txt author u]))"

subsection \<open>Summarizer with retry, hardened variant (lines 176-214)\<close>

definition MAX_RETRIES :: nat where
  "MAX_RETRIES = 3"

text \<open>The \<open>try\<close> block of one attempt (lines 190-202).\<close>

definition gemini_attempt :: "fetch_result \<Rightarrow> string + string" where
  "gemini_attempt f =
     (case f of
        Rejects m \<Rightarrow> Inl m
      | Resp r \<Rightarrow>
          if status r = 503 then Inl ''Gemini overload 503''
          else if \<not> ok r
          then Inl (''Gemini error '' @ show_nat (status r) @ '': '' @ text_or_empty r)
          else (case json_field r of
                  Inl m \<Rightarrow> Inl m
                | Inr t \<Rightarrow> Inr (trim (or_str t []))))"

text \<open>
  The \<open>while\<close> loop with its variables \<open>attempt\<close> and \<open>lastErr\<close> and the trace of
  effects so far. The call made when \<open>attempt\<close> is \<open>n\<close> gets the answer \<open>g n\<close>; \<open>ev\<close>
  is the event of one call. After the loop the function throws.
\<close>

function retry_loop ::
  "(nat \<Rightarrow> fetch_result) \<Rightarrow> event \<Rightarrow> nat \<Rightarrow> string option \<Rightarrow> event list
     \<Rightarrow> (string + string) \<times> event list" where
  "retry_loop g ev attempt lastErr tr =
     (if attempt \<le> MAX_RETRIES then
        (case gemini_attempt (g attempt) of
           Inr out \<Rightarrow> (Inr out, tr @ [ev])
         | Inl err \<Rightarrow>
             (if attempt + 1 \<le> MAX_RETRIES
              then retry_loop g ev (attempt + 1) (Some err)
                     (tr @ [ev, Sleep (1000 * 2 ^ (attempt + 1 - 1))])
              else retry_loop g ev (attempt + 1) (Some err) (tr @ [ev])))
      else
        (Inl (''Gemini failed after '' @ show_nat (MAX_RETRIES + 1) @ '' attempts: ''
              @ (case lastErr of None \<Rightarrow> ''undefined'' | Some m \<Rightarrow> m)), tr))"
  by pat_completeness auto
termination
  by (relation "measure (\<lambda>(g, ev, attempt, lastErr, tr). MAX_RETRIES + 1 - attempt)") auto

definition callGeminiSummary_h ::
  "config \<Rightarrow> world \<Rightarrow> string \<Rightarrow> string \<Rightarrow> string \<Rightarrow> (string + string) \<times> event list" where
  "callGeminiSummary_h cfg w txt author u =
     (if \<not> truthy (GEMINI_KEY cfg) then (Inl ''Missing GEMINI_API_KEY'', [])
      else retry_loop (gemini w) (FetchGemini txt author u) 0 None [])"

subsection \<open>Notifiers\<close>

text \<open>
  \<open>sendPushover\<close> (lines 90-106): \<open>false\<close> without a call when a credential is missing,
  else the \<open>ok\<close> of the response; a rejected \<open>fetch\<close> is not caught here. The hardened
  variant (lines 243-255) also sends the url when it is non-empty.
\<close>

definition sendPushover ::
  "config \<Rightarrow> world \<Rightarrow> string \<Rightarrow> string \<Rightarrow> (string + bool) \<times> event list" where
  "sendPushover cfg w title message =
     (if \<not> truthy (PUSHOVER_API_TOKEN cfg) \<or> \<not> truthy (PUSHOVER_USER_KEY cfg)
      then (Inr False, [])
      else
        (case pushover w of
           Rejects m \<Rightarrow> (Inl m, [PostPushover (or_str (Some title) ''HillPulse'') message None])
         | Resp r \<Rightarrow>
             (Inr (ok r), [PostPushover (or_str (Some title) ''HillPulse'') message None])))"

definition sendPushover_h ::
  "config \<Rightarrow> world \<Rightarrow> string \<Rightarrow> string \<Rightarrow> string \<Rightarrow> (string + bool) \<times> event list" where
  "sendPushover_h cfg w title message u =
     (if \<not> truthy (PUSHOVER_API_TOKEN cfg) \<or> \<not> truthy (PUSHOVER_USER_KEY cfg)
      then (Inr False, [])
      else
        (case pushover w of
           Rejects m \<Rightarrow>
             (Inl m, [PostPushover (or_str (Some title) ''HillPulse'') message
                        (if u = [] then None else Some u)])
         | Resp r \<Rightarrow>
             (Inr (ok r), [PostPushover (or_str (Some title) ''HillPulse'') message
                             (if u = [] then None else Some u)])))"

text \<open>
  \<open>sendEmail\<close> (lines 108-124): \<open>false\<close> without a call when host, user, password or
  recipient is missing; else one \<open>sendMail\<close>, whose exception is not caught here.
\<close>

definition sendEmail ::
  "config \<Rightarrow> world \<Rightarrow> string \<Rightarrow> string \<Rightarrow> (string + bool) \<times> event list" where
  "sendEmail cfg w subject body =
     (if \<not> truthy (SMTP_HOST cfg) \<or> \<not> truthy (SMTP_USER cfg)
          \<or> \<not> truthy (SMTP_PASS cfg) \<or> \<not> truthy (EMAIL_TO cfg)
      then (Inr False, [])
      else
        (case sendMail w of
           Some m \<Rightarrow> (Inl m, [SendMail subject body])
         | None \<Rightarrow> (Inr True, [SendMail subject body])))"

subsection \<open>Requests and replies\<close>

text \<open>
  A request is what the handler receives, behind the JSON body parser. The tweet object
  of the payload, with the fields the handlers read. The request body with its \<open>data\<close>
  and \<open>tweet\<close> members: \<open>None\<close> for a member that is absent or falsy, an object being
  truthy whatever its fields. The two headers the authorization reads.
\<close>

record payload =
  p_tweet_id :: "string option"
  p_id :: "string option"
  p_url :: "string option"
  p_author :: "string option"
  p_text :: "string option"

record body =
  b_data :: "payload option"
  b_tweet :: "payload option"

record request =
  req_body :: "body option"
  x_hillpulse_key :: "string option"
  authorization :: "string option"

definition empty_payload :: payload where
  "empty_payload =
     \<lparr>p_tweet_id = None, p_id = None, p_url = None, p_author = None, p_text = None\<rparr>"

definition empty_body :: body where
  "empty_body = \<lparr>b_data = None, b_tweet = None\<rparr>"

text \<open>
  The JSON answers: \<open>{ok:false, error}\<close>; \<open>{ok:true, duplicate:true}\<close>;
  \<open>{ok:true, duplicate:false, summary, pushed, emailed}\<close> of the baseline variant;
  \<open>{ok:true, summary, pushed}\<close> of the hardened variant. A reply is the status with
  the answer.
\<close>

datatype answer =
    Failure string
  | Duplicate
  | Delivered string bool bool
  | Delivered_h string bool

type_synonym reply = "nat \<times> answer"

subsection \<open>Ingestion endpoint, baseline variant (lines 130-154)\<close>

text \<open>Lines 132-133: \<open>body?.data || body?.tweet || {}\<close> on \<open>req.body || {}\<close>.\<close>

definition tweet_of :: "request \<Rightarrow> payload" where
  "tweet_of req =
     (let b = (case req_body req of None \<Rightarrow> empty_body | Some b \<Rightarrow> b)
      in case b_data b of
           Some t \<Rightarrow> t
         | None \<Rightarrow> (case b_tweet b of Some t \<Rightarrow> t | None \<Rightarrow> empty_payload))"

text \<open>Line 134: \<open>tweet.tweet_id || tweet.id || tweet.url || 'unknown'\<close>.\<close>

definition tweetId_of :: "payload \<Rightarrow> string" where
  "tweetId_of t = or_str (p_tweet_id t) (or_str (p_id t) (or_str (p_url t) ''unknown''))"

text \<open>A payload with no truthy \<open>tweet_id\<close>, \<open>id\<close> or \<open>url\<close>.\<close>

definition lacks_ids :: "payload \<Rightarrow> bool" where
  "lacks_ids t = (\<not> truthy (p_tweet_id t) \<and> \<not> truthy (p_id t) \<and> \<not> truthy (p_url t))"

text \<open>
  Lines 135-139 (and 264-267): the text of the payload, or the Text Resolver's when the
  payload has none and has a url.
\<close>

definition resolve_text :: "world \<Rightarrow> payload \<Rightarrow> string \<times> event list" where
  "resolve_text w t =
     (if or_str (p_text t) [] = [] \<and> or_str (p_url t) [] \<noteq> []
      then fetchTweetText w (or_str (p_url t) [])
      else (or_str (p_text t) [], []))"

text \<open>
  The handler returns the reply, the deduplicator's set after the request, and the
  outbound calls made. Every exception of the \<open>try\<close> block becomes the 500 reply with
  the exception's message. The duplicate check and the mark (lines 142-143) run with no
  suspension between them and read the clock as one value; they are the only place
  where the handler touches the set.
\<close>

definition ingest :: "config \<Rightarrow> world \<Rightarrow> seen \<Rightarrow> request \<Rightarrow> reply \<times> seen \<times> event list" where
  "ingest cfg w S req =
     (let tweet = tweet_of req;
          tweetId = tweetId_of tweet;
          u = or_str (p_url tweet) [];
          author = or_str (p_author tweet) [];
          (txt, tr1) = resolve_text w tweet
      in
        if txt = [] then ((400, Failure ''Could not retrieve tweet text''), S, tr1)
        else if isSeen S tweetId (clock w) then ((200, Duplicate), S, tr1)
        else
          (let S' = markSeen S tweetId (clock w) in
           case callGeminiSummary cfg w txt author u of
             (Inl m, tr2) \<Rightarrow> ((500, Failure m), S', tr1 @ tr2)
           | (Inr summary, tr2) \<Rightarrow>
               (case sendPushover cfg w ''HillPulse'' summary of
                  (Inl m, tr3) \<Rightarrow> ((500, Failure m), S', tr1 @ tr2 @ tr3)
                | (Inr pushed, tr3) \<Rightarrow>
                    (case sendEmail cfg w (''HillPulse: @'' @ author) summary of
                       (Inl m, tr4) \<Rightarrow> ((500, Failure m), S', tr1 @ tr2 @ tr3 @ tr4)
                     | (Inr emailed, tr4) \<Rightarrow>
                         ((200, Delivered summary pushed emailed), S',
                          tr1 @ tr2 @ tr3 @ tr4)))))"

text \<open>A run of requests, each with the world it meets, threading the set through.\<close>

fun ingest_run :: "config \<Rightarrow> seen \<Rightarrow> (world \<times> request) list \<Rightarrow> seen" where
  "ingest_run cfg S [] = S"
| "ingest_run cfg S ((w, req) # rs) = ingest_run cfg (fst (snd (ingest cfg w S req))) rs"

subsection \<open>Ingestion endpoint, hardened variant (lines 169-173, 259-277)\<close>

definition assertAuthorized :: "config \<Rightarrow> request \<Rightarrow> bool" where
  "assertAuthorized cfg req =
     (if INGEST_SECRET cfg = [] then True
      else
        (let h = or_str (x_hillpulse_key req) (or_str (authorization req) [])
         in h = INGEST_SECRET cfg \<or> h = ''Bearer '' @ INGEST_SECRET cfg))"

text \<open>Lines 262-263: \<open>body.data || {}\<close> on \<open>req.body || {}\<close>.\<close>

definition tweet_of_h :: "request \<Rightarrow> payload" where
  "tweet_of_h req =
     (let b = (case req_body req of None \<Rightarrow> empty_body | Some b \<Rightarrow> b)
      in case b_data b of Some t \<Rightarrow> t | None \<Rightarrow> empty_payload)"

definition ingest_h :: "config \<Rightarrow> world \<Rightarrow> request \<Rightarrow> reply \<times> event list" where
  "ingest_h cfg w req =
     (if \<not> assertAuthorized cfg req then ((401, Failure ''Unauthorized''), [])
      else
        (let tweet = tweet_of_h req;
             u = or_str (p_url tweet) [];
             author = or_str (p_author tweet) [];
             (txt, tr1) = resolve_text w tweet
         in
           if txt = [] then ((400, Failure ''Missing tweet text''), tr1)
           else
             (case callGeminiSummary_h cfg w txt author u of
                (Inl m, tr2) \<Rightarrow> ((500, Failure m), tr1 @ tr2)
              | (Inr summary, tr2) \<Rightarrow>
                  (case sendPushover_h cfg w ''HillPulse'' summary u of
                     (Inl m, tr3) \<Rightarrow> ((500, Failure m), tr1 @ tr2 @ tr3)
                   | (Inr pushed, tr3) \<Rightarrow>
                       ((200, Delivered_h summary pushed), tr1 @ tr2 @ tr3)))))"

text \<open>A match of \<open>/<[^>]+>/\<close> starts at the head of the string.\<close>

definition tag_start :: "string \<Rightarrow> bool" where
  "tag_start s =
     (case s of
        [] \<Rightarrow> False
      | c # r \<Rightarrow> c = CHR ''<'' \<and> takeWhile (\<lambda>x. x \<noteq> CHR ''>'') r \<noteq> []
                  \<and> dropWhile (\<lambda>x. x \<noteq> CHR ''>'') r \<noteq> [])"

subsection \<open>Entity decoding as the specification words it\<close>

text \<open>
  The reference for the decoding of the five entities: one pass from the left, each
  occurrence in the source replaced once, the replacement text never read again.
\<close>

function spec_decode :: "string \<Rightarrow> string" where
  "spec_decode [] = []"
| "spec_decode (c # r) =
     (if take 5 (c # r) = ''&amp;'' then CHR ''&'' # spec_decode (drop 4 r)
      else if take 4 (c # r) = ''&lt;'' then CHR ''<'' # spec_decode (drop 3 r)
      else if take 4 (c # r) = ''&gt;'' then CHR ''>'' # spec_decode (drop 3 r)
      else if take 6 (c # r) = ''&quot;'' then CHR 0x22 # spec_decode (drop 5 r)
      else if take 5 (c # r) = ''&#39;'' then CHR 0x27 # spec_decode (drop 4 r)
      else c # spec_decode r)"
  by pat_completeness auto
termination
  by (relation "measure length") auto

subsection \<open>Kinds of outbound calls\<close>

definition is_summarizer_call :: "event \<Rightarrow> bool" where
  "is_summarizer_call e = (case e of FetchGemini t a u \<Rightarrow> True | _ \<Rightarrow> False)"

definition is_notifier_call :: "event \<Rightarrow> bool" where
  "is_notifier_call e =
     (case e of PostPushover t m u \<Rightarrow> True | SendMail s b \<Rightarrow> True | _ \<Rightarrow> False)"

subsection \<open>Concrete configurations, worlds and requests\<close>

text \<open>Used to run the definitions on concrete inputs.\<close>

definition full_config :: config where
  "full_config =
     \<lparr>GEMINI_KEY = Some ''key'', INGEST_SECRET = ''s3cret'',
      PUSHOVER_API_TOKEN = Some ''tok'', PUSHOVER_USER_KEY = Some ''usr'',
      SMTP_HOST = Some ''smtp.example.org'', SMTP_USER = Some ''relay'',
      SMTP_PASS = Some ''pw'', EMAIL_TO = Some ''staff@example.org''\<rparr>"

definition busy_503 :: response where
  "busy_503 = \<lparr>status = 503, text_body = Some ''busy'', json_field = Inl ''bad json''\<rparr>"

definition answer_with :: "string \<Rightarrow> response" where
  "answer_with t = \<lparr>status = 200, text_body = Some t, json_field = Inr (Some t)\<rparr>"

definition calm_world :: world where
  "calm_world =
     \<lparr>clock = 1700000000000,
      oembed = (\<lambda>u. Resp (answer_with ''<blockquote><p lang=en>Vote at 5pm</p></blockquote>'')),
      syndication = (\<lambda>u. Resp (answer_with ''Vote at 5pm'')),
      gemini = (\<lambda>k. Resp (answer_with '' @repuser: CR vote 5pm '')),
      pushover = Resp (answer_with ''{}''),
      sendMail = None\<rparr>"

definition scenario_payload :: payload where
  "scenario_payload =
     \<lparr>p_tweet_id = Some ''123'', p_id = None,
      p_url = Some ''https://x.com/u/status/123'', p_author = Some ''repuser'',
      p_text = Some ''We must pass the CR.''\<rparr>"

definition post_data :: "payload \<Rightarrow> request" where
  "post_data t =
     \<lparr>req_body = Some \<lparr>b_data = Some t, b_tweet = None\<rparr>,
      x_hillpulse_key = None, authorization = None\<rparr>"

definition post_tweet :: "payload \<Rightarrow> request" where
  "post_tweet t =
     \<lparr>req_body = Some \<lparr>b_data = None, b_tweet = Some t\<rparr>,
      x_hillpulse_key = None, authorization = None\<rparr>"

definition open_config :: config where
  "open_config = full_config\<lparr>INGEST_SECRET := []\<rparr>"

definition server_error :: response where
  "server_error = \<lparr>status = 500, text_body = Some ''boom'', json_field = Inl ''bad json''\<rparr>"

section \<open>Properties\<close>

text \<open>
  The equations of the recursive functions are unfolded by hand, one step at a time.
\<close>

declare show_nat.simps [simp del]
declare replace_all.simps [simp del]
declare retry_loop.simps [simp del]



subsection \<open>Deduplicator\<close>

lemma markSeen_same: "markSeen S i now i = Some now"
  by (simp add: markSeen_def TTL_MS_def)

lemma markSeen_other:
  "j \<noteq> i \<Longrightarrow> markSeen S j now i =
     (case S i of None \<Rightarrow> None | Some t \<Rightarrow> if now - t > TTL_MS then None else Some t)"
  by (simp add: markSeen_def)

lemma markAll_absent:
  "S i = None \<Longrightarrow> i \<notin> fst ` set ms \<Longrightarrow> markAll S ms i = None"
proof (induction ms arbitrary: S)
  case Nil
  then show ?case by simp
next
  case (Cons m ms)
  obtain j t where m: "m = (j, t)" by (cases m)
  with Cons.prems have "j \<noteq> i" by auto
  with Cons.prems have "markSeen S j t i = None"
    by (simp add: markSeen_other)
  with Cons m show ?case by simp
qed

text \<open>
  An entry written at \<open>T\<close> and never overwritten is, after later marks of other ids at
  clock readings up to \<open>T'\<close>, either still there or was pruned more than 24 hours after
  \<open>T\<close>.
\<close>

lemma markAll_kept_or_expired:
  assumes "S i = Some T \<or> (S i = None \<and> T' - T > TTL_MS)"
    and "\<forall>m \<in> set ms. fst m \<noteq> i \<and> snd m \<le> T'"
  shows "markAll S ms i = Some T \<or> (markAll S ms i = None \<and> T' - T > TTL_MS)"
  using assms
proof (induction ms arbitrary: S)
  case Nil
  then show ?case by simp
next
  case (Cons m ms)
  obtain j t where m: "m = (j, t)" by (cases m)
  with Cons.prems have j: "j \<noteq> i" and t: "t \<le> T'" by auto
  from Cons.prems(1) j t
  have "markSeen S j t i = Some T \<or> (markSeen S j t i = None \<and> T' - T > TTL_MS)"
    by (auto simp: markSeen_other split: if_splits)
  moreover from Cons.prems(2) have "\<forall>m \<in> set ms. fst m \<noteq> i \<and> snd m \<le> T'"
    by simp
  ultimately show ?case
    using Cons.IH [of "markSeen S j t"] m by simp
qed

text \<open>
  C2. An id marked at clock reading \<open>T\<close> is reported seen by a later query at \<open>T'\<close>
  exactly when \<open>T' - T\<close> is below 24 hours. This holds directly after the mark and after any
  run of later marks of other ids whose clock readings do not exceed \<open>T'\<close>. An id that
  was never marked since the empty set is not seen, and an id whose entry a later mark
  pruned is not seen. The clock reading \<open>T\<close> is taken to be nonzero: \<open>isSeen\<close> tests
  the stored reading for truthiness, and \<open>Date.now()\<close> is \<open>0\<close> only at the epoch itself.
\<close>

theorem C2_isSeen_window:
  "(T \<noteq> 0 \<longrightarrow> isSeen (markSeen S i T) i T' = (T' - T < TTL_MS))
   \<and> (T \<noteq> 0 \<and> (\<forall>m \<in> set ms. fst m \<noteq> i \<and> snd m \<le> T') \<longrightarrow>
        isSeen (markAll (markSeen S i T) ms) i T' = (T' - T < TTL_MS))
   \<and> (i \<notin> fst ` set ms \<longrightarrow> \<not> isSeen (markAll Map.empty ms) i T')
   \<and> (j \<noteq> i \<and> S i = Some T \<and> T'' - T > TTL_MS \<longrightarrow>
        \<not> isSeen (markSeen S j T'') i T')"
proof -
  have a: "isSeen (markSeen S i T) i T' = (T' - T < TTL_MS)" if "T \<noteq> 0"
    using that by (simp add: isSeen_def markSeen_same)
  have b: "isSeen (markAll (markSeen S i T) ms) i T' = (T' - T < TTL_MS)"
    if "T \<noteq> 0" and ms: "\<forall>m \<in> set ms. fst m \<noteq> i \<and> snd m \<le> T'"
  proof -
    have "markSeen S i T i = Some T \<or> (markSeen S i T i = None \<and> T' - T > TTL_MS)"
      by (simp add: markSeen_same)
    from markAll_kept_or_expired [of "markSeen S i T" i T T' ms, OF this ms] \<open>T \<noteq> 0\<close>
    show ?thesis by (auto simp: isSeen_def)
  qed
  have c: "\<not> isSeen (markAll Map.empty ms) i T'" if "i \<notin> fst ` set ms"
    using markAll_absent [of Map.empty i ms] that by (simp add: isSeen_def)
  have d: "\<not> isSeen (markSeen S j T'') i T'"
    if "j \<noteq> i" "S i = Some T" "T'' - T > TTL_MS"
    using that by (simp add: isSeen_def markSeen_other)
  from a b c d show ?thesis by blast
qed

theorem C2_isSeen_window_witness:
  "isSeen (markSeen Map.empty ''123'' 1000) ''123'' 5000
   \<and> \<not> isSeen (markSeen Map.empty ''123'' 1000) ''123'' 86401000
   \<and> isSeen (markAll (markSeen Map.empty ''123'' 1000) [(''456'', 2000)]) ''123'' 86400999
   \<and> \<not> isSeen (markAll Map.empty [(''456'', 2000)]) ''123'' 5000
   \<and> \<not> isSeen (markSeen (markSeen Map.empty ''123'' 1000) ''456'' 86401001) ''123'' 5000"
proof -
  have s: "markSeen Map.empty ''123'' 1000 ''123'' = Some 1000"
    by (simp add: markSeen_def TTL_MS_def)
  from C2_isSeen_window [of 1000 Map.empty "''123''" 5000 "[(''456'', 2000)]"]
  have a: "isSeen (markSeen Map.empty ''123'' 1000) ''123'' 5000"
    and d: "\<not> isSeen (markAll Map.empty [(''456'', 2000)]) ''123'' 5000"
    by (simp_all add: TTL_MS_def)
  from C2_isSeen_window [of 1000 "markSeen Map.empty ''123'' 1000" "''123''" 5000 "[]"
      "''456''" 86401001] s
  have e: "\<not> isSeen (markSeen (markSeen Map.empty ''123'' 1000) ''456'' 86401001) ''123'' 5000"
    by (simp add: TTL_MS_def)
  from C2_isSeen_window [of 1000 Map.empty "''123''" 86401000 "[]"]
  have b: "\<not> isSeen (markSeen Map.empty ''123'' 1000) ''123'' 86401000"
    by (simp add: TTL_MS_def)
  from C2_isSeen_window [of 1000 Map.empty "''123''" 86400999 "[(''456'', 2000)]"]
  have c: "isSeen (markAll (markSeen Map.empty ''123'' 1000) [(''456'', 2000)]) ''123'' 86400999"
    by (simp add: TTL_MS_def)
  from a b c d e show ?thesis by blast
qed

subsection \<open>Summarizer retry\<close>

lemma retry_ok:
  "attempt \<le> 3 \<Longrightarrow> gemini_attempt (g attempt) = Inr out \<Longrightarrow>
   retry_loop g ev attempt l tr = (Inr out, tr @ [ev])"
  by (subst retry_loop.simps) (simp add: MAX_RETRIES_def)

lemma retry_fail_0:
  "gemini_attempt (g 0) = Inl e \<Longrightarrow>
   retry_loop g ev 0 l tr = retry_loop g ev 1 (Some e) (tr @ [ev, Sleep 1000])"
  by (subst retry_loop.simps) (simp add: MAX_RETRIES_def)

lemma retry_fail_1:
  "gemini_attempt (g 1) = Inl e \<Longrightarrow>
   retry_loop g ev 1 l tr = retry_loop g ev 2 (Some e) (tr @ [ev, Sleep 2000])"
  by (subst retry_loop.simps) (simp add: MAX_RETRIES_def del: One_nat_def)

lemma retry_fail_2:
  "gemini_attempt (g 2) = Inl e \<Longrightarrow>
   retry_loop g ev 2 l tr = retry_loop g ev 3 (Some e) (tr @ [ev, Sleep 4000])"
  by (subst retry_loop.simps) (simp add: MAX_RETRIES_def)

lemma retry_fail_3:
  "gemini_attempt (g 3) = Inl e \<Longrightarrow>
   retry_loop g ev 3 l tr =
     (Inl (''Gemini failed after 4 attempts: '' @ e), tr @ [ev])"
  by (subst retry_loop.simps, simp add: MAX_RETRIES_def, subst retry_loop.simps)
     (simp add: MAX_RETRIES_def show_nat.simps digit_def)

text \<open>What the loop does when the first \<open>n\<close> attempts fail and attempt \<open>n\<close> succeeds.\<close>

lemma retry_succeeds_at:
  assumes n: "n \<le> 3"
    and fails: "\<forall>k<n. gemini_attempt (g k) = Inl (e k)"
    and succ: "gemini_attempt (g n) = Inr out"
  shows "retry_loop g ev 0 l tr =
    (Inr out, tr @ concat (map (\<lambda>k. [ev, Sleep (1000 * 2 ^ k)]) [0..<n]) @ [ev])"
proof -
  from n consider "n = 0" | "n = 1" | "n = 2" | "n = 3" by linarith
  then show ?thesis
  proof cases
    case 1
    with succ show ?thesis by (simp add: retry_ok)
  next
    case 2
    with fails have f0: "gemini_attempt (g 0) = Inl (e 0)" by simp
    have "retry_loop g ev 0 l tr = retry_loop g ev 1 (Some (e 0)) (tr @ [ev, Sleep 1000])"
      by (rule retry_fail_0 [of g "e 0", OF f0])
    also have "\<dots> = (Inr out, (tr @ [ev, Sleep 1000]) @ [ev])"
      using succ 2 by (intro retry_ok) simp_all
    finally show ?thesis using 2 by simp
  next
    case 3
    with fails have f0: "gemini_attempt (g 0) = Inl (e 0)"
      and f1: "gemini_attempt (g 1) = Inl (e 1)" by simp_all
    have "retry_loop g ev 0 l tr = retry_loop g ev 1 (Some (e 0)) (tr @ [ev, Sleep 1000])"
      by (rule retry_fail_0 [of g "e 0", OF f0])
    also have "\<dots> = retry_loop g ev 2 (Some (e 1)) ((tr @ [ev, Sleep 1000]) @ [ev, Sleep 2000])"
      by (rule retry_fail_1 [of g "e 1", OF f1])
    also have "\<dots> = (Inr out, ((tr @ [ev, Sleep 1000]) @ [ev, Sleep 2000]) @ [ev])"
      using succ 3 by (intro retry_ok) simp_all
    finally show ?thesis using 3 by (simp add: upt_rec)
  next
    case 4
    with fails have f0: "gemini_attempt (g 0) = Inl (e 0)"
      and f1: "gemini_attempt (g 1) = Inl (e 1)"
      and f2: "gemini_attempt (g 2) = Inl (e 2)" by simp_all
    have "retry_loop g ev 0 l tr = retry_loop g ev 1 (Some (e 0)) (tr @ [ev, Sleep 1000])"
      by (rule retry_fail_0 [of g "e 0", OF f0])
    also have "\<dots> = retry_loop g ev 2 (Some (e 1)) ((tr @ [ev, Sleep 1000]) @ [ev, Sleep 2000])"
      by (rule retry_fail_1 [of g "e 1", OF f1])
    also have "\<dots> = retry_loop g ev 3 (Some (e 2))
        (((tr @ [ev, Sleep 1000]) @ [ev, Sleep 2000]) @ [ev, Sleep 4000])"
      by (rule retry_fail_2 [of g "e 2", OF f2])
    also have "\<dots> = (Inr out,
        (((tr @ [ev, Sleep 1000]) @ [ev, Sleep 2000]) @ [ev, Sleep 4000]) @ [ev])"
      using succ 4 by (intro retry_ok) simp_all
    finally show ?thesis using 4 by (simp add: upt_rec)
  qed
qed

text \<open>What the loop does when all four attempts fail.\<close>

lemma retry_exhausted:
  assumes fails: "\<forall>k\<le>3. gemini_attempt (g k) = Inl (e k)"
  shows "retry_loop g ev 0 l tr =
    (Inl (''Gemini failed after 4 attempts: '' @ e 3),
     tr @ [ev, Sleep 1000, ev, Sleep 2000, ev, Sleep 4000, ev])"
proof -
  from fails have f0: "gemini_attempt (g 0) = Inl (e 0)"
    and f1: "gemini_attempt (g 1) = Inl (e 1)"
    and f2: "gemini_attempt (g 2) = Inl (e 2)"
    and f3: "gemini_attempt (g 3) = Inl (e 3)" by simp_all
  have "retry_loop g ev 0 l tr = retry_loop g ev 1 (Some (e 0)) (tr @ [ev, Sleep 1000])"
    by (rule retry_fail_0 [of g "e 0", OF f0])
  also have "\<dots> = retry_loop g ev 2 (Some (e 1)) ((tr @ [ev, Sleep 1000]) @ [ev, Sleep 2000])"
    by (rule retry_fail_1 [of g "e 1", OF f1])
  also have "\<dots> = retry_loop g ev 3 (Some (e 2))
      (((tr @ [ev, Sleep 1000]) @ [ev, Sleep 2000]) @ [ev, Sleep 4000])"
    by (rule retry_fail_2 [of g "e 2", OF f2])
  also have "\<dots> = (Inl (''Gemini failed after 4 attempts: '' @ e 3),
      (((tr @ [ev, Sleep 1000]) @ [ev, Sleep 2000]) @ [ev, Sleep 4000]) @ [ev])"
    by (rule retry_fail_3 [of g "e 3", OF f3])
  finally show ?thesis by simp
qed

text \<open>
  C1. In the hardened variant an attempt that gets status 503, or in which anything
  throws, fails with an error. When the first \<open>n \<le> 3\<close> attempts fail and the next one
  succeeds, the call returns that attempt's output after \<open>n + 1\<close> calls, having slept
  \<open>1000 * 2 ^ k\<close> ms after failed attempt \<open>k\<close>. When all four attempts fail, the call
  has made exactly four calls with sleeps of 1000, 2000 and 4000 ms between them and
  throws an error whose message ends with the message of the fourth attempt's error.
\<close>

theorem C1_retry_policy:
  "(status r = 503 \<longrightarrow> gemini_attempt (Resp r) = Inl ''Gemini overload 503'')
   \<and> gemini_attempt (Rejects m) = Inl m
   \<and> (truthy (GEMINI_KEY cfg) \<and> n \<le> 3
        \<and> (\<forall>k<n. gemini_attempt (gemini w k) = Inl (e k))
        \<and> gemini_attempt (gemini w n) = Inr out \<longrightarrow>
      callGeminiSummary_h cfg w t a u =
        (Inr out,
         concat (map (\<lambda>k. [FetchGemini t a u, Sleep (1000 * 2 ^ k)]) [0..<n])
           @ [FetchGemini t a u]))
   \<and> (truthy (GEMINI_KEY cfg)
        \<and> (\<forall>k\<le>3. gemini_attempt (gemini w k) = Inl (e k)) \<longrightarrow>
      callGeminiSummary_h cfg w t a u =
        (Inl (''Gemini failed after 4 attempts: '' @ e 3),
         [FetchGemini t a u, Sleep 1000, FetchGemini t a u, Sleep 2000,
          FetchGemini t a u, Sleep 4000, FetchGemini t a u]))"
proof -
  have a: "gemini_attempt (Resp r) = Inl ''Gemini overload 503''" if "status r = 503"
    using that by (simp add: gemini_attempt_def)
  have b: "gemini_attempt (Rejects m) = Inl m"
    by (simp add: gemini_attempt_def)
  have c: "callGeminiSummary_h cfg w t a u =
        (Inr out,
         concat (map (\<lambda>k. [FetchGemini t a u, Sleep (1000 * 2 ^ k)]) [0..<n])
           @ [FetchGemini t a u])"
    if "truthy (GEMINI_KEY cfg)" "n \<le> 3"
      "\<forall>k<n. gemini_attempt (gemini w k) = Inl (e k)"
      "gemini_attempt (gemini w n) = Inr out"
    using that retry_succeeds_at [of n "gemini w" e out "FetchGemini t a u" None "[]"]
    by (simp add: callGeminiSummary_h_def)
  have d: "callGeminiSummary_h cfg w t a u =
        (Inl (''Gemini failed after 4 attempts: '' @ e 3),
         [FetchGemini t a u, Sleep 1000, FetchGemini t a u, Sleep 2000,
          FetchGemini t a u, Sleep 4000, FetchGemini t a u])"
    if "truthy (GEMINI_KEY cfg)" "\<forall>k\<le>3. gemini_attempt (gemini w k) = Inl (e k)"
    using that retry_exhausted [of "gemini w" e "FetchGemini t a u" None "[]"]
    by (simp add: callGeminiSummary_h_def)
  from a b c d show ?thesis by blast
qed

theorem C1_retry_policy_witness:
  "callGeminiSummary_h full_config (calm_world\<lparr>gemini := \<lambda>k. Resp busy_503\<rparr>)
      ''txt'' ''au'' ''url'' =
     (Inl ''Gemini failed after 4 attempts: Gemini overload 503'',
      [FetchGemini ''txt'' ''au'' ''url'', Sleep 1000, FetchGemini ''txt'' ''au'' ''url'',
       Sleep 2000, FetchGemini ''txt'' ''au'' ''url'', Sleep 4000,
       FetchGemini ''txt'' ''au'' ''url''])
   \<and> callGeminiSummary_h full_config
        (calm_world\<lparr>gemini := \<lambda>k. if k = 0 then Rejects ''ECONNRESET'' else Resp (answer_with '' ok '')\<rparr>)
        ''txt'' ''au'' ''url'' =
     (Inr ''ok'',
      [FetchGemini ''txt'' ''au'' ''url'', Sleep 1000, FetchGemini ''txt'' ''au'' ''url''])"
proof -
  have "gemini_attempt (Resp busy_503) = Inl ''Gemini overload 503''"
    using C1_retry_policy [of busy_503] by (simp add: busy_503_def)
  then have a: "callGeminiSummary_h full_config (calm_world\<lparr>gemini := \<lambda>k. Resp busy_503\<rparr>)
      ''txt'' ''au'' ''url'' =
     (Inl ''Gemini failed after 4 attempts: Gemini overload 503'',
      [FetchGemini ''txt'' ''au'' ''url'', Sleep 1000, FetchGemini ''txt'' ''au'' ''url'',
       Sleep 2000, FetchGemini ''txt'' ''au'' ''url'', Sleep 4000,
       FetchGemini ''txt'' ''au'' ''url''])"
    using C1_retry_policy [of busy_503 "''m''" full_config 0
        "calm_world\<lparr>gemini := \<lambda>k. Resp busy_503\<rparr>" "\<lambda>k. ''Gemini overload 503''"
        "''x''" "''txt''" "''au''" "''url''"]
    by (simp add: full_config_def truthy_def)
  have "gemini_attempt (Resp (answer_with '' ok '')) = Inr ''ok''"
    by (simp add: gemini_attempt_def answer_with_def ok_def or_str_def trim_def is_space_def)
  then have b: "callGeminiSummary_h full_config
        (calm_world\<lparr>gemini := \<lambda>k. if k = 0 then Rejects ''ECONNRESET'' else Resp (answer_with '' ok '')\<rparr>)
        ''txt'' ''au'' ''url'' =
     (Inr ''ok'',
      [FetchGemini ''txt'' ''au'' ''url'', Sleep 1000, FetchGemini ''txt'' ''au'' ''url''])"
    using C1_retry_policy [of busy_503 "''ECONNRESET''" full_config 1
        "calm_world\<lparr>gemini := \<lambda>k. if k = 0 then Rejects ''ECONNRESET'' else Resp (answer_with '' ok '')\<rparr>"
        "\<lambda>k. ''ECONNRESET''" "''ok''" "''txt''" "''au''" "''url''"]
    by (simp add: full_config_def truthy_def)
  from a b show ?thesis by blast
qed

subsection \<open>Ingestion endpoint, baseline variant\<close>

text \<open>The three ways the handler can leave: no text, duplicate, or after marking.\<close>

lemma ingest_no_text:
  "fst (resolve_text w (tweet_of req)) = [] \<Longrightarrow>
   ingest cfg w S req =
     ((400, Failure ''Could not retrieve tweet text''), S, snd (resolve_text w (tweet_of req)))"
  by (auto simp: ingest_def Let_def split: prod.splits)

lemma ingest_duplicate:
  "fst (resolve_text w (tweet_of req)) \<noteq> [] \<Longrightarrow>
   isSeen S (tweetId_of (tweet_of req)) (clock w) \<Longrightarrow>
   ingest cfg w S req = ((200, Duplicate), S, snd (resolve_text w (tweet_of req)))"
  by (auto simp: ingest_def Let_def split: prod.splits)

lemma ingest_marks:
  "fst (resolve_text w (tweet_of req)) \<noteq> [] \<Longrightarrow>
   \<not> isSeen S (tweetId_of (tweet_of req)) (clock w) \<Longrightarrow>
   fst (snd (ingest cfg w S req)) = markSeen S (tweetId_of (tweet_of req)) (clock w)"
  by (auto simp: ingest_def Let_def split: prod.splits sum.splits)

lemma ingest_set_cases:
  "fst (snd (ingest cfg w S req)) = S \<or>
   (\<not> isSeen S (tweetId_of (tweet_of req)) (clock w) \<and>
    fst (snd (ingest cfg w S req)) = markSeen S (tweetId_of (tweet_of req)) (clock w))"
  by (auto simp: ingest_def Let_def split: prod.splits sum.splits)

lemma ingest_500_marked:
  "fst (fst (ingest cfg w S req)) = 500 \<Longrightarrow>
   fst (snd (ingest cfg w S req)) = markSeen S (tweetId_of (tweet_of req)) (clock w)"
  by (auto simp: ingest_def Let_def split: prod.splits sum.splits if_splits)

text \<open>The Text Resolver is the only source of calls before the duplicate check.\<close>

lemma resolve_text_no_summarizer:
  "\<not> list_ex is_summarizer_call (snd (resolve_text w t))"
  by (auto simp: resolve_text_def fetchTweetText_def is_summarizer_call_def
      split: sum.splits option.splits if_splits)

lemma resolve_text_no_notifier:
  "\<not> list_ex is_notifier_call (snd (resolve_text w t))"
  by (auto simp: resolve_text_def fetchTweetText_def is_notifier_call_def
      split: sum.splits option.splits if_splits)

lemma sendMail_not_resolver:
  "SendMail s b \<notin> set (snd (resolve_text w t))"
  by (auto simp: resolve_text_def fetchTweetText_def
      split: sum.splits option.splits if_splits)

text \<open>An entry within its window survives any request: a request for the same id is a
  duplicate, and a request for another id prunes only entries older than 24 hours.\<close>

lemma ingest_keeps_entry:
  assumes "S k = Some T" and "T \<noteq> 0" and "clock w - T < TTL_MS"
  shows "fst (snd (ingest cfg w S req)) k = Some T"
proof -
  from assms have seen: "isSeen S k (clock w)" by (simp add: isSeen_def)
  from ingest_set_cases [of cfg w S req] show ?thesis
  proof
    assume "fst (snd (ingest cfg w S req)) = S"
    with assms show ?thesis by simp
  next
    assume m: "\<not> isSeen S (tweetId_of (tweet_of req)) (clock w) \<and>
      fst (snd (ingest cfg w S req)) = markSeen S (tweetId_of (tweet_of req)) (clock w)"
    with seen have "tweetId_of (tweet_of req) \<noteq> k" by auto
    with m assms show ?thesis by (simp add: markSeen_other)
  qed
qed

lemma ingest_run_keeps_entry:
  assumes "S k = Some T" and "T \<noteq> 0"
    and "\<forall>x \<in> set rs. clock (fst x) - T < TTL_MS"
  shows "ingest_run cfg S rs k = Some T"
  using assms
proof (induction rs arbitrary: S)
  case Nil
  then show ?case by simp
next
  case (Cons x rs)
  obtain w req where x: "x = (w, req)" by (cases x)
  with Cons.prems have "clock w - T < TTL_MS" by simp
  with Cons.prems have "fst (snd (ingest cfg w S req)) k = Some T"
    by (intro ingest_keeps_entry) simp_all
  with Cons x show ?case by simp
qed

lemma lacks_ids_unknown: "lacks_ids t \<Longrightarrow> tweetId_of t = ''unknown''"
  by (auto simp: lacks_ids_def tweetId_of_def or_str_def truthy_def split: option.splits)

lemma lacks_ids_resolve:
  "lacks_ids t \<Longrightarrow> resolve_text w t = (or_str (p_text t) [], [])"
  by (auto simp: lacks_ids_def resolve_text_def or_str_def truthy_def split: option.splits)

lemma or_str_truthy: "or_str x [] \<noteq> [] \<longleftrightarrow> truthy x"
  by (auto simp: or_str_def truthy_def split: option.splits)

text \<open>The definitions unfolded to run the baseline handler on a concrete request.\<close>

lemmas run_defs =
  ingest_def Let_def tweet_of_def tweetId_of_def resolve_text_def post_data_def post_tweet_def
  empty_payload_def empty_body_def scenario_payload_def or_str_def truthy_def isSeen_def
  markSeen_def TTL_MS_def callGeminiSummary_def gemini_once_def sendPushover_def
  sendEmail_def full_config_def calm_world_def answer_with_def ok_def trim_def is_space_def
  server_error_def text_or_empty_def show_nat.simps digit_def lacks_ids_def

text \<open>
  C3 (as amended). In the baseline variant the id is recorded as soon as a request with
  resolved text passes the duplicate check, before the summarizer is called. So whenever
  the reply is a 500 (a summarizer or notifier exception), the id is in the set with the
  request's clock reading. A retry of the same request less than 24 hours later (the
  recorded clock reading being nonzero) is never processed again: it is answered
  \<open>{ok:true, duplicate:true}\<close> when its text is present or resolves, and 400 when its
  text does not resolve; either way the set is unchanged and no summarizer or notifier
  call is made.
\<close>

theorem C3_marked_before_summary:
  assumes "fst (fst (ingest cfg w S req)) = 500"
  shows "fst (snd (ingest cfg w S req)) (tweetId_of (tweet_of req)) = Some (clock w)
    \<and> (clock w \<noteq> 0 \<and> clock w' - clock w < TTL_MS \<longrightarrow>
         (fst (resolve_text w' (tweet_of req)) \<noteq> [] \<longrightarrow>
            fst (ingest cfg' w' (fst (snd (ingest cfg w S req))) req) = (200, Duplicate))
         \<and> (fst (resolve_text w' (tweet_of req)) = [] \<longrightarrow>
            fst (ingest cfg' w' (fst (snd (ingest cfg w S req))) req)
              = (400, Failure ''Could not retrieve tweet text''))
         \<and> fst (snd (ingest cfg' w' (fst (snd (ingest cfg w S req))) req))
              = fst (snd (ingest cfg w S req))
         \<and> \<not> list_ex is_summarizer_call
                (snd (snd (ingest cfg' w' (fst (snd (ingest cfg w S req))) req)))
         \<and> \<not> list_ex is_notifier_call
                (snd (snd (ingest cfg' w' (fst (snd (ingest cfg w S req))) req))))"
proof -
  let ?S1 = "fst (snd (ingest cfg w S req))"
  let ?retry = "ingest cfg' w' ?S1 req"
  from assms have m: "?S1 (tweetId_of (tweet_of req)) = Some (clock w)"
    by (simp add: ingest_500_marked markSeen_same)
  have seen: "isSeen ?S1 (tweetId_of (tweet_of req)) (clock w')"
    if "clock w \<noteq> 0" "clock w' - clock w < TTL_MS"
    using m that by (simp add: isSeen_def)
  have dup: "?retry = ((200, Duplicate), ?S1, snd (resolve_text w' (tweet_of req)))"
    if "clock w \<noteq> 0" "clock w' - clock w < TTL_MS"
      "fst (resolve_text w' (tweet_of req)) \<noteq> []"
    using seen that by (simp add: ingest_duplicate)
  have bad: "?retry = ((400, Failure ''Could not retrieve tweet text''), ?S1,
        snd (resolve_text w' (tweet_of req)))"
    if "fst (resolve_text w' (tweet_of req)) = []"
    using that by (rule ingest_no_text)
  have rest: "fst (snd ?retry) = ?S1
      \<and> \<not> list_ex is_summarizer_call (snd (snd ?retry))
      \<and> \<not> list_ex is_notifier_call (snd (snd ?retry))"
    if c: "clock w \<noteq> 0" "clock w' - clock w < TTL_MS"
  proof (cases "fst (resolve_text w' (tweet_of req)) = []")
    case True
    from bad [OF True] show ?thesis
      by (simp add: resolve_text_no_summarizer resolve_text_no_notifier)
  next
    case False
    from dup [OF c False] show ?thesis
      by (simp add: resolve_text_no_summarizer resolve_text_no_notifier)
  qed
  from m dup bad rest show ?thesis by simp
qed

theorem C3_marked_before_summary_witness:
  "fst (snd (ingest full_config (calm_world\<lparr>gemini := \<lambda>k. Resp server_error\<rparr>) Map.empty
       (post_data scenario_payload))) ''123'' = Some 1700000000000
   \<and> fst (ingest full_config (calm_world\<lparr>clock := 1700000000001\<rparr>)
       (fst (snd (ingest full_config (calm_world\<lparr>gemini := \<lambda>k. Resp server_error\<rparr>)
                    Map.empty (post_data scenario_payload))))
       (post_data scenario_payload)) = (200, Duplicate)
   \<and> fst (ingest full_config
       (calm_world\<lparr>clock := 1700000000001, oembed := \<lambda>u. Rejects ''ECONNRESET''\<rparr>)
       (fst (snd (ingest full_config (calm_world\<lparr>gemini := \<lambda>k. Resp server_error\<rparr>)
                    Map.empty (post_data (empty_payload\<lparr>p_url := Some ''https://x.com/u/status/9''\<rparr>)))))
       (post_data (empty_payload\<lparr>p_url := Some ''https://x.com/u/status/9''\<rparr>)))
     = (400, Failure ''Could not retrieve tweet text'')"
proof -
  let ?w = "calm_world\<lparr>gemini := \<lambda>k. Resp server_error\<rparr>"
  let ?urlonly = "post_data (empty_payload\<lparr>p_url := Some ''https://x.com/u/status/9''\<rparr>)"
  have a: "fst (fst (ingest full_config ?w Map.empty (post_data scenario_payload))) = 500"
    by (simp add: ingest_def Let_def tweet_of_def tweetId_of_def resolve_text_def
        post_data_def scenario_payload_def or_str_def truthy_def isSeen_def
        callGeminiSummary_def gemini_once_def full_config_def calm_world_def ok_def
        server_error_def)
  have b: "tweetId_of (tweet_of (post_data scenario_payload)) = ''123''"
    by (simp add: tweet_of_def tweetId_of_def post_data_def scenario_payload_def or_str_def)
  have c: "fst (resolve_text (calm_world\<lparr>clock := 1700000000001\<rparr>)
      (tweet_of (post_data scenario_payload))) \<noteq> []"
    by (simp add: tweet_of_def resolve_text_def post_data_def scenario_payload_def or_str_def)
  from C3_marked_before_summary [OF a,
      of "calm_world\<lparr>clock := 1700000000001\<rparr>" full_config] b c
  have first: "fst (snd (ingest full_config ?w Map.empty (post_data scenario_payload)))
        ''123'' = Some 1700000000000
      \<and> fst (ingest full_config (calm_world\<lparr>clock := 1700000000001\<rparr>)
          (fst (snd (ingest full_config ?w Map.empty (post_data scenario_payload))))
          (post_data scenario_payload)) = (200, Duplicate)"
    by (simp add: calm_world_def TTL_MS_def)
  have m: "match_p ''<blockquote><p lang=en>Vote at 5pm</p></blockquote>'' = Some ''Vote at 5pm''"
    by code_simp
  have d: "decode_fragment ''Vote at 5pm'' = ''Vote at 5pm''"
    by code_simp
  have r1: "resolve_text ?w (tweet_of ?urlonly)
      = (''Vote at 5pm'', [FetchOEmbed ''https://x.com/u/status/9''])"
    by (simp add: tweet_of_def post_data_def resolve_text_def empty_payload_def or_str_def
        fetchTweetText_def oembed_stage_def calm_world_def answer_with_def ok_def m d
        del: match_p.simps)
  have a': "fst (fst (ingest full_config ?w Map.empty ?urlonly)) = 500"
    using r1
    by (simp add: ingest_def Let_def isSeen_def callGeminiSummary_def gemini_once_def
        full_config_def truthy_def calm_world_def server_error_def ok_def)
  have r2: "fst (resolve_text
        (calm_world\<lparr>clock := 1700000000001, oembed := \<lambda>u. Rejects ''ECONNRESET''\<rparr>)
        (tweet_of ?urlonly)) = []"
    by (simp add: tweet_of_def post_data_def resolve_text_def empty_payload_def or_str_def
        fetchTweetText_def oembed_stage_def)
  from C3_marked_before_summary [OF a',
      of "calm_world\<lparr>clock := 1700000000001, oembed := \<lambda>u. Rejects ''ECONNRESET''\<rparr>"
      full_config] r2
  have second: "fst (ingest full_config
       (calm_world\<lparr>clock := 1700000000001, oembed := \<lambda>u. Rejects ''ECONNRESET''\<rparr>)
       (fst (snd (ingest full_config ?w Map.empty ?urlonly))) ?urlonly)
     = (400, Failure ''Could not retrieve tweet text'')"
    by (simp add: calm_world_def TTL_MS_def)
  from first second show ?thesis by blast
qed

text \<open>
  The claim as stated fails: the summarizer answers 500, the request is answered 500,
  the id \<open>123\<close> is recorded all the same, and the immediate retry is a duplicate.
\<close>

theorem C3_marked_counterexample:
  "ingest full_config (calm_world\<lparr>gemini := \<lambda>k. Resp server_error\<rparr>) Map.empty
       (post_data scenario_payload)
     = ((500, Failure ''Gemini error 500: boom''),
        markSeen Map.empty ''123'' 1700000000000,
        [FetchGemini ''We must pass the CR.'' ''repuser'' ''https://x.com/u/status/123''])
   \<and> isSeen (markSeen Map.empty ''123'' 1700000000000) ''123'' 1700000000001
   \<and> ingest full_config (calm_world\<lparr>clock := 1700000000001\<rparr>)
       (markSeen Map.empty ''123'' 1700000000000) (post_data scenario_payload)
     = ((200, Duplicate), markSeen Map.empty ''123'' 1700000000000, [])"
proof -
  have a: "ingest full_config (calm_world\<lparr>gemini := \<lambda>k. Resp server_error\<rparr>) Map.empty
       (post_data scenario_payload)
     = ((500, Failure ''Gemini error 500: boom''),
        markSeen Map.empty ''123'' 1700000000000,
        [FetchGemini ''We must pass the CR.'' ''repuser'' ''https://x.com/u/status/123''])"
    by (simp add: ingest_def Let_def tweet_of_def tweetId_of_def resolve_text_def
        post_data_def scenario_payload_def or_str_def truthy_def isSeen_def
        callGeminiSummary_def gemini_once_def full_config_def calm_world_def ok_def
        server_error_def text_or_empty_def show_nat.simps digit_def)
  have b: "isSeen (markSeen Map.empty ''123'' 1700000000000) ''123'' 1700000000001"
    by (simp add: isSeen_def markSeen_same TTL_MS_def)
  have c: "ingest full_config (calm_world\<lparr>clock := 1700000000001\<rparr>)
       (markSeen Map.empty ''123'' 1700000000000) (post_data scenario_payload)
     = ((200, Duplicate), markSeen Map.empty ''123'' 1700000000000, [])"
    using b by (simp add: ingest_def Let_def tweet_of_def tweetId_of_def resolve_text_def
        post_data_def scenario_payload_def or_str_def)
  from a b c show ?thesis by blast
qed

text \<open>
  C4 (as amended). In the baseline variant a request whose text is present or resolved
  and whose identifier is seen within the window is answered 200 with
  \<open>{ok:true, duplicate:true}\<close>; the set is unchanged and no summarizer or notifier
  call is made.
\<close>

theorem C4_duplicate:
  assumes "isSeen S (tweetId_of (tweet_of req)) (clock w)"
    and "fst (resolve_text w (tweet_of req)) \<noteq> []"
  shows "fst (ingest cfg w S req) = (200, Duplicate)
    \<and> fst (snd (ingest cfg w S req)) = S
    \<and> \<not> list_ex is_summarizer_call (snd (snd (ingest cfg w S req)))
    \<and> \<not> list_ex is_notifier_call (snd (snd (ingest cfg w S req)))"
  using assms
  by (simp add: ingest_duplicate resolve_text_no_summarizer resolve_text_no_notifier)

theorem C4_duplicate_witness:
  "fst (ingest full_config (calm_world\<lparr>clock := 1700000000001\<rparr>)
         (markSeen Map.empty ''123'' 1700000000000) (post_data scenario_payload))
     = (200, Duplicate)
   \<and> snd (snd (ingest full_config (calm_world\<lparr>clock := 1700000000001\<rparr>)
         (markSeen Map.empty ''123'' 1700000000000) (post_data scenario_payload))) = []"
proof -
  have a: "isSeen (markSeen Map.empty ''123'' 1700000000000)
      (tweetId_of (tweet_of (post_data scenario_payload)))
      (clock (calm_world\<lparr>clock := 1700000000001\<rparr>))"
    by (simp add: run_defs)
  have b: "resolve_text (calm_world\<lparr>clock := 1700000000001\<rparr>)
      (tweet_of (post_data scenario_payload)) = (''We must pass the CR.'', [])"
    by (simp add: run_defs)
  from C4_duplicate [of "markSeen Map.empty ''123'' 1700000000000" "post_data scenario_payload"
      "calm_world\<lparr>clock := 1700000000001\<rparr>" full_config] a b
  have "fst (ingest full_config (calm_world\<lparr>clock := 1700000000001\<rparr>)
         (markSeen Map.empty ''123'' 1700000000000) (post_data scenario_payload))
     = (200, Duplicate)" by simp
  moreover from a b have "snd (snd (ingest full_config (calm_world\<lparr>clock := 1700000000001\<rparr>)
         (markSeen Map.empty ''123'' 1700000000000) (post_data scenario_payload))) = []"
    by (simp add: ingest_duplicate)
  ultimately show ?thesis by blast
qed

text \<open>
  The claim as stated fails for a request with a seen identifier and no text and no url:
  the check for text comes first and answers 400.
\<close>

theorem C4_duplicate_counterexample:
  "isSeen (markSeen Map.empty ''123'' 1700000000000) ''123'' (clock calm_world)
   \<and> tweetId_of (tweet_of (post_data (empty_payload\<lparr>p_tweet_id := Some ''123''\<rparr>))) = ''123''
   \<and> fst (ingest full_config calm_world (markSeen Map.empty ''123'' 1700000000000)
            (post_data (empty_payload\<lparr>p_tweet_id := Some ''123''\<rparr>)))
     = (400, Failure ''Could not retrieve tweet text'')"
  by (simp add: run_defs)

text \<open>
  C7. In the baseline variant, when the handler has called the transport's \<open>sendMail\<close>
  and that call throws with message \<open>m\<close>, the reply is 500 with
  \<open>{ok:false, error:m}\<close>. With push credentials configured the push request was made
  and answered before that, whatever its outcome; the reply does not report it.
\<close>

theorem C7_email_exception:
  assumes "SendMail s b \<in> set (snd (snd (ingest cfg w S req)))"
    and "sendMail w = Some m"
  shows "fst (ingest cfg w S req) = (500, Failure m)
    \<and> (truthy (PUSHOVER_API_TOKEN cfg) \<and> truthy (PUSHOVER_USER_KEY cfg) \<longrightarrow>
         (\<exists>r. pushover w = Resp r
            \<and> PostPushover ''HillPulse'' b None \<in> set (snd (snd (ingest cfg w S req)))))"
proof -
  obtain tx tr1 where r: "resolve_text w (tweet_of req) = (tx, tr1)"
    by (cases "resolve_text w (tweet_of req)")
  with sendMail_not_resolver [of s b w "tweet_of req"] have n: "SendMail s b \<notin> set tr1"
    by simp
  from assms n r have a: "fst (ingest cfg w S req) = (500, Failure m)"
    by (auto simp: ingest_def Let_def callGeminiSummary_def sendPushover_def sendEmail_def
        split: if_splits sum.splits prod.splits fetch_result.splits)
  from assms n r have b: "\<exists>r. pushover w = Resp r
      \<and> PostPushover ''HillPulse'' b None \<in> set (snd (snd (ingest cfg w S req)))"
    if "truthy (PUSHOVER_API_TOKEN cfg)" "truthy (PUSHOVER_USER_KEY cfg)"
    using that
    by (auto simp: ingest_def Let_def callGeminiSummary_def sendPushover_def sendEmail_def
        or_str_def
        split: if_splits sum.splits prod.splits fetch_result.splits)
  from a b show ?thesis by blast
qed

theorem C7_email_exception_witness:
  "ingest full_config (calm_world\<lparr>sendMail := Some ''ETIMEDOUT''\<rparr>) Map.empty
       (post_data scenario_payload)
     = ((500, Failure ''ETIMEDOUT''),
        markSeen Map.empty ''123'' 1700000000000,
        [FetchGemini ''We must pass the CR.'' ''repuser'' ''https://x.com/u/status/123'',
         PostPushover ''HillPulse'' ''@repuser: CR vote 5pm'' None,
         SendMail ''HillPulse: @repuser'' ''@repuser: CR vote 5pm''])
   \<and> sendPushover full_config (calm_world\<lparr>sendMail := Some ''ETIMEDOUT''\<rparr>)
         ''HillPulse'' ''@repuser: CR vote 5pm''
     = (Inr True, [PostPushover ''HillPulse'' ''@repuser: CR vote 5pm'' None])"
proof -
  have tr: "snd (snd (ingest full_config (calm_world\<lparr>sendMail := Some ''ETIMEDOUT''\<rparr>)
       Map.empty (post_data scenario_payload)))
     = [FetchGemini ''We must pass the CR.'' ''repuser'' ''https://x.com/u/status/123'',
         PostPushover ''HillPulse'' ''@repuser: CR vote 5pm'' None,
         SendMail ''HillPulse: @repuser'' ''@repuser: CR vote 5pm'']"
    by (simp add: run_defs)
  have st: "fst (snd (ingest full_config (calm_world\<lparr>sendMail := Some ''ETIMEDOUT''\<rparr>)
       Map.empty (post_data scenario_payload)))
     = markSeen Map.empty ''123'' 1700000000000"
    by (simp add: ingest_marks tweet_of_def tweetId_of_def resolve_text_def post_data_def
        scenario_payload_def or_str_def isSeen_def calm_world_def)
  have "fst (ingest full_config (calm_world\<lparr>sendMail := Some ''ETIMEDOUT''\<rparr>) Map.empty
       (post_data scenario_payload)) = (500, Failure ''ETIMEDOUT'')"
    using C7_email_exception [of "''HillPulse: @repuser''" "''@repuser: CR vote 5pm''"
        full_config "calm_world\<lparr>sendMail := Some ''ETIMEDOUT''\<rparr>" Map.empty
        "post_data scenario_payload" "''ETIMEDOUT''"] tr
    by simp
  moreover have "sendPushover full_config (calm_world\<lparr>sendMail := Some ''ETIMEDOUT''\<rparr>)
         ''HillPulse'' ''@repuser: CR vote 5pm''
     = (Inr True, [PostPushover ''HillPulse'' ''@repuser: CR vote 5pm'' None])"
    by (simp add: sendPushover_def full_config_def calm_world_def truthy_def or_str_def
        answer_with_def ok_def)
  ultimately show ?thesis using tr st by (simp add: prod_eq_iff)
qed

text \<open>
  C10 (as amended). In the baseline variant a request without \<open>tweet_id\<close>, \<open>id\<close> and
  \<open>url\<close> gets the identifier \<open>unknown\<close>. After one such request with text has been
  processed at a nonzero clock reading, and after any run of further requests within
  24 hours of it, a later such request with text within 24 hours is answered 200 with
  \<open>{ok:true, duplicate:true}\<close>, whatever its text; no call is made and the set is
  unchanged.
\<close>

theorem C10_unknown_shared:
  assumes "lacks_ids (tweet_of req1)" and "lacks_ids (tweet_of req2)"
    and "truthy (p_text (tweet_of req1))" and "\<not> isSeen S ''unknown'' (clock w1)"
    and "clock w1 \<noteq> 0"
    and "\<forall>x \<in> set mid. clock (fst x) - clock w1 < TTL_MS"
    and "clock w2 - clock w1 < TTL_MS"
    and "truthy (p_text (tweet_of req2))"
  shows "ingest cfg w2 (ingest_run cfg (fst (snd (ingest cfg w1 S req1))) mid) req2 =
    ((200, Duplicate), ingest_run cfg (fst (snd (ingest cfg w1 S req1))) mid, [])"
proof -
  let ?S1 = "fst (snd (ingest cfg w1 S req1))"
  let ?S2 = "ingest_run cfg ?S1 mid"
  from assms have "?S1 = markSeen S ''unknown'' (clock w1)"
    by (simp add: ingest_marks lacks_ids_unknown lacks_ids_resolve or_str_truthy)
  then have "?S1 ''unknown'' = Some (clock w1)"
    by (simp add: markSeen_same)
  with assms have "?S2 ''unknown'' = Some (clock w1)"
    by (intro ingest_run_keeps_entry) simp_all
  with assms have "isSeen ?S2 (tweetId_of (tweet_of req2)) (clock w2)"
    by (simp add: isSeen_def lacks_ids_unknown)
  moreover from assms have "fst (resolve_text w2 (tweet_of req2)) \<noteq> []"
    by (simp add: lacks_ids_resolve or_str_truthy)
  ultimately show ?thesis
    using assms(2) by (simp add: ingest_duplicate lacks_ids_resolve)
qed

theorem C10_unknown_shared_witness:
  "fst (ingest full_config (calm_world\<lparr>clock := 1700000009000\<rparr>)
     (ingest_run full_config
        (fst (snd (ingest full_config calm_world Map.empty
                     (post_data (empty_payload\<lparr>p_text := Some ''first''\<rparr>)))))
        [(calm_world\<lparr>clock := 1700000005000\<rparr>, post_data scenario_payload)])
     (post_data (empty_payload\<lparr>p_text := Some ''entirely different''\<rparr>)))
   = (200, Duplicate)"
  using C10_unknown_shared [of "post_data (empty_payload\<lparr>p_text := Some ''first''\<rparr>)"
      "post_data (empty_payload\<lparr>p_text := Some ''entirely different''\<rparr>)"
      Map.empty calm_world
      "[(calm_world\<lparr>clock := 1700000005000\<rparr>, post_data scenario_payload)]"
      "calm_world\<lparr>clock := 1700000009000\<rparr>" full_config]
  by (simp add: lacks_ids_def tweet_of_def post_data_def empty_payload_def truthy_def
      isSeen_def calm_world_def TTL_MS_def)

text \<open>
  The claim as stated fails for a later such request that has no text either: it is
  answered 400.
\<close>

theorem C10_unknown_shared_counterexample:
  "fst (ingest full_config calm_world Map.empty
          (post_data (empty_payload\<lparr>p_text := Some ''first''\<rparr>)))
     = (200, Delivered ''@repuser: CR vote 5pm'' True True)
   \<and> lacks_ids (tweet_of (post_data empty_payload))
   \<and> fst (ingest full_config (calm_world\<lparr>clock := 1700000000001\<rparr>)
            (fst (snd (ingest full_config calm_world Map.empty
                         (post_data (empty_payload\<lparr>p_text := Some ''first''\<rparr>)))))
            (post_data empty_payload))
     = (400, Failure ''Could not retrieve tweet text'')"
  by (simp add: run_defs)

subsection \<open>Text Resolver\<close>

text \<open>
  The tag-stripping half of C5 holds: no match of \<open>/<[^>]+>/\<close> starts anywhere in
  the stripped text (the entity decoding runs on it afterwards and can write \<open><\<close> and
  \<open>>\<close> again).
\<close>

lemma set_strip_tags: "set (strip_tags s) \<subseteq> set s"
proof (induction s rule: strip_tags.induct)
  case 1
  then show ?case by simp
next
  case (2 c r)
  let ?d = "dropWhile (\<lambda>x. x \<noteq> CHR ''>'') r"
  have "set (tl ?d) \<subseteq> set r"
    by (metis list.set_sel(2) set_dropWhileD subsetI tl_Nil)
  with 2 show ?case by (auto split: if_splits)
qed

lemma strip_tags_no_tag: "\<not> tag_start (drop n (strip_tags s))"
proof (induction s arbitrary: n rule: strip_tags.induct)
  case 1
  then show ?case by (simp add: tag_start_def)
next
  case (2 c r)
  let ?P = "\<lambda>x. x \<noteq> CHR ''>''"
  show ?case
  proof (cases "c = CHR ''<'' \<and> takeWhile ?P r \<noteq> [] \<and> dropWhile ?P r \<noteq> []")
    case True
    with "2.IH"(1) show ?thesis by simp
  next
    case False
    then have eq: "strip_tags (c # r) = c # strip_tags r" by auto
    show ?thesis
    proof (cases n)
      case (Suc k)
      with eq "2.IH"(2) False show ?thesis by simp
    next
      case 0
      have "\<not> tag_start (c # strip_tags r)"
      proof (cases "c = CHR ''<''")
        case c: True
        with False consider "takeWhile ?P r = []" | "dropWhile ?P r = []" by blast
        then show ?thesis
        proof cases
          case 1
          then have "r = [] \<or> (\<exists>r'. r = CHR ''>'' # r')"
            by (cases r) (auto split: if_splits)
          then have "takeWhile ?P (strip_tags r) = []" by auto
          then show ?thesis by (simp add: tag_start_def)
        next
          case 2
          then have "\<forall>x \<in> set r. ?P x" by (simp add: dropWhile_eq_Nil_conv)
          with set_strip_tags [of r] have "\<forall>x \<in> set (strip_tags r). ?P x" by blast
          then have "dropWhile ?P (strip_tags r) = []" by (simp add: dropWhile_eq_Nil_conv)
          then show ?thesis by (auto simp: tag_start_def)
        qed
      next
        case False
        then show ?thesis by (simp add: tag_start_def)
      qed
      with 0 eq show ?thesis by simp
    qed
  qed
qed

text \<open>
  C5. The chain of replacements decodes \<open>&amp;\<close> first, so the \<open>&\<close> it writes is read
  again by the four replacements behind it. For the paragraph of a tweet whose text is
  \<open>Use &lt;b&gt; for bold\<close>, which the embed markup carries as
  \<open>Use &amp;lt;b&amp;gt; for bold\<close>, the code returns \<open>Use <b> for bold\<close>, while
  decoding each occurrence once gives \<open>Use &lt;b&gt; for bold\<close>.
\<close>

theorem C5_cascaded_decoding:
  "match_p ''<blockquote><p lang=en>Use &amp;lt;b&amp;gt; for bold</p></blockquote>''
     = Some ''Use &amp;lt;b&amp;gt; for bold''
   \<and> decode_fragment ''Use &amp;lt;b&amp;gt; for bold'' = ''Use <b> for bold''
   \<and> spec_decode (strip_tags ''Use &amp;lt;b&amp;gt; for bold'') = ''Use &lt;b&gt; for bold''"
  by code_simp

text \<open>
  The paths through the resolver for a non-empty url. When the embed answer has a
  non-success status or yields no paragraph fragment, the resolver calls the
  syndication endpoint for the same url and returns its text when that is present and
  non-empty, and \<open>''\<close> when the fallback is rejected, has a non-success status, cannot
  be parsed or has no text. When the embed call is rejected or its body cannot be
  parsed, the exception goes to the \<open>catch\<close> and the fallback is not called. When a
  fragment is found, the result is the decoded fragment.
\<close>

lemma fetchTweetText_paths:
  assumes "u \<noteq> []"
  shows
    "(oembed w u = Resp r1
        \<and> (\<not> ok r1 \<or> (json_field r1 = Inr h \<and> match_p (or_str h []) = None)) \<longrightarrow>
      snd (fetchTweetText w u) = [FetchOEmbed u, FetchSyndication u]
      \<and> (syndication w u = Resp r2 \<and> ok r2 \<and> json_field r2 = Inr (Some t) \<and> t \<noteq> [] \<longrightarrow>
           fst (fetchTweetText w u) = t)
      \<and> (syndication w u = Rejects m
           \<or> (syndication w u = Resp r2
                \<and> (\<not> ok r2 \<or> json_field r2 = Inl m \<or> json_field r2 = Inr None
                     \<or> json_field r2 = Inr (Some []))) \<longrightarrow>
           fst (fetchTweetText w u) = []))
     \<and> (oembed w u = Rejects m \<or> (oembed w u = Resp r1 \<and> ok r1 \<and> json_field r1 = Inl m) \<longrightarrow>
          fetchTweetText w u = ([], [FetchOEmbed u]))
     \<and> (oembed w u = Resp r1 \<and> ok r1 \<and> json_field r1 = Inr h
          \<and> match_p (or_str h []) = Some g \<longrightarrow>
          fetchTweetText w u = (decode_fragment g, [FetchOEmbed u]))"
proof -
  have through: "oembed_stage (oembed w u) = Inr None"
    if "oembed w u = Resp r1"
      "\<not> ok r1 \<or> (json_field r1 = Inr h \<and> match_p (or_str h []) = None)"
    using that by (auto simp: oembed_stage_def)
  have a1: "snd (fetchTweetText w u) = [FetchOEmbed u, FetchSyndication u]"
    if "oembed_stage (oembed w u) = Inr None"
    using that assms by (simp add: fetchTweetText_def split: sum.splits option.splits)
  have a2: "fst (fetchTweetText w u) = t"
    if "oembed_stage (oembed w u) = Inr None"
      "syndication w u = Resp r2" "ok r2" "json_field r2 = Inr (Some t)" "t \<noteq> []"
    using that assms by (simp add: fetchTweetText_def syndication_stage_def truthy_def)
  have a3: "fst (fetchTweetText w u) = []"
    if "oembed_stage (oembed w u) = Inr None"
      "syndication w u = Rejects m
           \<or> (syndication w u = Resp r2
                \<and> (\<not> ok r2 \<or> json_field r2 = Inl m \<or> json_field r2 = Inr None
                     \<or> json_field r2 = Inr (Some [])))"
    using that assms by (auto simp: fetchTweetText_def syndication_stage_def truthy_def)
  have b: "fetchTweetText w u = ([], [FetchOEmbed u])"
    if "oembed w u = Rejects m \<or> (oembed w u = Resp r1 \<and> ok r1 \<and> json_field r1 = Inl m)"
    using that assms by (auto simp: fetchTweetText_def oembed_stage_def)
  have c: "fetchTweetText w u = (decode_fragment g, [FetchOEmbed u])"
    if "oembed w u = Resp r1" "ok r1" "json_field r1 = Inr h" "match_p (or_str h []) = Some g"
    using that assms by (simp add: fetchTweetText_def oembed_stage_def)
  from through a1 a2 a3 b c show ?thesis by blast
qed

lemma fetchTweetText_paths_examples:
  "fetchTweetText (calm_world\<lparr>oembed := \<lambda>u. Resp server_error\<rparr>)
       ''https://x.com/u/status/123''
     = (''Vote at 5pm'',
        [FetchOEmbed ''https://x.com/u/status/123'',
         FetchSyndication ''https://x.com/u/status/123''])
   \<and> fetchTweetText (calm_world\<lparr>oembed := \<lambda>u. Rejects ''ECONNRESET''\<rparr>)
       ''https://x.com/u/status/123''
     = ([], [FetchOEmbed ''https://x.com/u/status/123''])
   \<and> fetchTweetText calm_world ''https://x.com/u/status/123''
     = (''Vote at 5pm'', [FetchOEmbed ''https://x.com/u/status/123''])
   \<and> fetchTweetText
        (calm_world\<lparr>oembed := \<lambda>u. Resp server_error, syndication := \<lambda>u. Resp server_error\<rparr>)
        ''https://x.com/u/status/123''
     = ([], [FetchOEmbed ''https://x.com/u/status/123'',
             FetchSyndication ''https://x.com/u/status/123''])"
proof -
  have u: "''https://x.com/u/status/123'' \<noteq> []" by simp
  have m: "match_p ''<blockquote><p lang=en>Vote at 5pm</p></blockquote>'' = Some ''Vote at 5pm''"
    by code_simp
  have d: "decode_fragment ''Vote at 5pm'' = ''Vote at 5pm''"
    by code_simp
  from fetchTweetText_paths [OF u, of "calm_world\<lparr>oembed := \<lambda>u. Resp server_error\<rparr>" server_error
      None "answer_with ''Vote at 5pm''" "''Vote at 5pm''" "''x''" "''g''"]
  have a: "fetchTweetText (calm_world\<lparr>oembed := \<lambda>u. Resp server_error\<rparr>)
       ''https://x.com/u/status/123''
     = (''Vote at 5pm'',
        [FetchOEmbed ''https://x.com/u/status/123'',
         FetchSyndication ''https://x.com/u/status/123''])"
    by (simp add: server_error_def ok_def calm_world_def answer_with_def prod_eq_iff)
  from fetchTweetText_paths [OF u, of "calm_world\<lparr>oembed := \<lambda>u. Rejects ''ECONNRESET''\<rparr>" server_error
      None "answer_with ''Vote at 5pm''" "''Vote at 5pm''" "''ECONNRESET''" "''g''"]
  have b: "fetchTweetText (calm_world\<lparr>oembed := \<lambda>u. Rejects ''ECONNRESET''\<rparr>)
       ''https://x.com/u/status/123''
     = ([], [FetchOEmbed ''https://x.com/u/status/123''])"
    by simp
  from fetchTweetText_paths [OF u, of calm_world
      "answer_with ''<blockquote><p lang=en>Vote at 5pm</p></blockquote>''"
      "Some ''<blockquote><p lang=en>Vote at 5pm</p></blockquote>''"
      "answer_with ''Vote at 5pm''" "''Vote at 5pm''" "''x''" "''Vote at 5pm''"] m d
  have c: "fetchTweetText calm_world ''https://x.com/u/status/123''
     = (''Vote at 5pm'', [FetchOEmbed ''https://x.com/u/status/123''])"
    by (simp add: calm_world_def answer_with_def ok_def or_str_def)
  from fetchTweetText_paths [OF u,
      of "calm_world\<lparr>oembed := \<lambda>u. Resp server_error, syndication := \<lambda>u. Resp server_error\<rparr>"
      server_error None server_error "''x''" "''x''" "''g''"]
  have d: "fetchTweetText
        (calm_world\<lparr>oembed := \<lambda>u. Resp server_error, syndication := \<lambda>u. Resp server_error\<rparr>)
        ''https://x.com/u/status/123''
     = ([], [FetchOEmbed ''https://x.com/u/status/123'',
             FetchSyndication ''https://x.com/u/status/123''])"
    by (simp add: server_error_def ok_def prod_eq_iff)
  from a b c d show ?thesis by blast
qed

text \<open>
  C6. The resolver falls back to the syndication endpoint when the embed answer has a
  non-success status or no paragraph fragment, but not when the embed call throws: both
  calls sit in one \<open>try\<close> block, so a rejected embed fetch goes straight to the
  \<open>catch\<close>. With the embed fetch rejected and a syndication endpoint that would answer
  \<open>Vote at 5pm\<close>, the code makes the embed call only and returns \<open>''\<close>; with the embed
  answer a 500 and the same syndication endpoint, it calls the fallback and returns the
  text.
\<close>

theorem C6_fallback_skipped:
  "fetchTweetText (calm_world\<lparr>oembed := \<lambda>u. Rejects ''ECONNRESET''\<rparr>)
       ''https://x.com/u/status/123''
     = ([], [FetchOEmbed ''https://x.com/u/status/123''])
   \<and> syndication_stage
        (syndication (calm_world\<lparr>oembed := \<lambda>u. Rejects ''ECONNRESET''\<rparr>)
           ''https://x.com/u/status/123'')
     = Inr (Some ''Vote at 5pm'')
   \<and> fetchTweetText (calm_world\<lparr>oembed := \<lambda>u. Resp server_error\<rparr>)
       ''https://x.com/u/status/123''
     = (''Vote at 5pm'',
        [FetchOEmbed ''https://x.com/u/status/123'',
         FetchSyndication ''https://x.com/u/status/123''])"
  by (simp add: fetchTweetText_def oembed_stage_def syndication_stage_def calm_world_def
      answer_with_def server_error_def ok_def truthy_def)

subsection \<open>Ingestion endpoint, hardened variant\<close>

text \<open>
  C8. In the hardened variant, with a secret configured, a request whose
  \<open>X-HillPulse-Key\<close> and \<open>Authorization\<close> headers are both different from the secret
  and from \<open>Bearer\<close> followed by the secret is answered 401 with
  \<open>{ok:false, error:"Unauthorized"}\<close> and no call is made. With no secret configured
  every request is authorized.
\<close>

theorem C8_unauthorized:
  "(INGEST_SECRET cfg \<noteq> []
      \<and> x_hillpulse_key req \<noteq> Some (INGEST_SECRET cfg)
      \<and> x_hillpulse_key req \<noteq> Some (''Bearer '' @ INGEST_SECRET cfg)
      \<and> authorization req \<noteq> Some (INGEST_SECRET cfg)
      \<and> authorization req \<noteq> Some (''Bearer '' @ INGEST_SECRET cfg) \<longrightarrow>
    ingest_h cfg w req = ((401, Failure ''Unauthorized''), []))
   \<and> (INGEST_SECRET cfg = [] \<longrightarrow> assertAuthorized cfg req)"
  by (auto simp: ingest_h_def assertAuthorized_def or_str_def Let_def split: option.splits)

theorem C8_unauthorized_witness:
  "ingest_h full_config calm_world (post_data scenario_payload)
     = ((401, Failure ''Unauthorized''), [])
   \<and> assertAuthorized open_config (post_data scenario_payload)"
  using C8_unauthorized [of full_config "post_data scenario_payload" calm_world]
    C8_unauthorized [of open_config "post_data scenario_payload" calm_world]
  by (simp add: full_config_def open_config_def post_data_def)

text \<open>
  C9 (as amended). In the baseline variant a payload under the legacy \<open>tweet\<close> key,
  with no \<open>data\<close> member, is processed exactly as the same payload under \<open>data\<close>. The
  hardened variant reads \<open>data\<close> only: a payload under \<open>tweet\<close> is processed as if the
  body had no payload.
\<close>

theorem C9_legacy_key:
  "ingest cfg w S (req\<lparr>req_body := Some \<lparr>b_data = None, b_tweet = Some t\<rparr>\<rparr>)
     = ingest cfg w S (req\<lparr>req_body := Some \<lparr>b_data = Some t, b_tweet = None\<rparr>\<rparr>)
   \<and> ingest_h cfg w (req\<lparr>req_body := Some \<lparr>b_data = None, b_tweet = Some t\<rparr>\<rparr>)
     = ingest_h cfg w (req\<lparr>req_body := Some \<lparr>b_data = None, b_tweet = None\<rparr>\<rparr>)"
  by (simp add: ingest_def ingest_h_def tweet_of_def tweet_of_h_def assertAuthorized_def)

theorem C9_legacy_key_witness:
  "ingest full_config calm_world Map.empty (post_tweet scenario_payload)
     = ingest full_config calm_world Map.empty (post_data scenario_payload)
   \<and> fst (ingest full_config calm_world Map.empty (post_tweet scenario_payload))
     = (200, Delivered ''@repuser: CR vote 5pm'' True True)"
proof -
  have "post_tweet scenario_payload =
      (post_tweet scenario_payload)\<lparr>req_body := Some \<lparr>b_data = None, b_tweet = Some scenario_payload\<rparr>\<rparr>"
    and "post_data scenario_payload =
      (post_tweet scenario_payload)\<lparr>req_body := Some \<lparr>b_data = Some scenario_payload, b_tweet = None\<rparr>\<rparr>"
    by (simp_all add: post_tweet_def post_data_def)
  with C9_legacy_key [where cfg = full_config and w = calm_world and S = Map.empty
      and req = "post_tweet scenario_payload" and t = scenario_payload]
  have "ingest full_config calm_world Map.empty (post_tweet scenario_payload)
     = ingest full_config calm_world Map.empty (post_data scenario_payload)"
    by simp
  moreover have "fst (ingest full_config calm_world Map.empty (post_data scenario_payload))
     = (200, Delivered ''@repuser: CR vote 5pm'' True True)"
    by (simp add: ingest_def Let_def tweet_of_def tweetId_of_def resolve_text_def
        post_data_def scenario_payload_def or_str_def truthy_def isSeen_def
        callGeminiSummary_def gemini_once_def sendPushover_def sendEmail_def
        full_config_def calm_world_def answer_with_def ok_def trim_def is_space_def)
  ultimately show ?thesis by simp
qed

text \<open>
  The claim as stated fails in the hardened variant: the scenario's payload is answered
  400 under \<open>tweet\<close> and 200 with a summary under \<open>data\<close>.
\<close>

theorem C9_legacy_key_counterexample:
  "fst (ingest_h open_config calm_world (post_tweet scenario_payload))
     = (400, Failure ''Missing tweet text'')
   \<and> fst (ingest_h open_config calm_world (post_data scenario_payload))
     = (200, Delivered_h ''@repuser: CR vote 5pm'' True)"
proof -
  have g: "gemini_attempt (gemini calm_world 0) = Inr ''@repuser: CR vote 5pm''"
    by (simp add: gemini_attempt_def calm_world_def answer_with_def ok_def or_str_def
        trim_def is_space_def)
  have a: "fst (ingest_h open_config calm_world (post_tweet scenario_payload))
     = (400, Failure ''Missing tweet text'')"
    by (simp add: ingest_h_def Let_def assertAuthorized_def open_config_def full_config_def
        tweet_of_h_def post_tweet_def empty_payload_def resolve_text_def or_str_def)
  have r: "retry_loop (gemini calm_world) ev 0 None [] = (Inr ''@repuser: CR vote 5pm'', [ev])"
    for ev
    using retry_ok [of 0 "gemini calm_world" "''@repuser: CR vote 5pm''" ev None "[]"] g
    by simp
  have s: "callGeminiSummary_h open_config calm_world t a u
      = (Inr ''@repuser: CR vote 5pm'', [FetchGemini t a u])" for t a u
    using r by (simp add: callGeminiSummary_h_def open_config_def full_config_def truthy_def)
  have p: "sendPushover_h open_config calm_world ''HillPulse'' m u
      = (Inr True, [PostPushover ''HillPulse'' m (if u = [] then None else Some u)])" for m u
    by (simp add: sendPushover_h_def open_config_def full_config_def truthy_def or_str_def
        calm_world_def answer_with_def ok_def)
  have auth: "assertAuthorized open_config req" for req
    by (simp add: assertAuthorized_def open_config_def full_config_def)
  have b: "fst (ingest_h open_config calm_world (post_data scenario_payload))
     = (200, Delivered_h ''@repuser: CR vote 5pm'' True)"
    by (simp add: ingest_h_def Let_def auth s p tweet_of_h_def post_data_def
        scenario_payload_def resolve_text_def or_str_def)
  from a b show ?thesis by blast
qed

end
